theory Spec2Isabelle
  imports Complex_Main "HOL-Library.Sublist"
begin

section \<open>Data model of the dashboard script (src/app.py)\<close>

text \<open>
  The script is one top-level block: three provider queries, a date-window filter, the
  nearest-ATM selection, a prompt built by string templating and one chat-completion
  call. Prices and strikes are Python floats; they are modelled as exact rationals
  (finite values, no NaN). A calendar date is its day number.
\<close>

type_synonym date = int

datatype error =
    KeyError string
  | TypeError string
  | ValueError string
  | RequestError string
  | ServiceError string

text \<open>What \<open>f"{e}"\<close> prints for an exception: its message.\<close>

fun str_of_error :: "error \<Rightarrow> string" where
  "str_of_error (KeyError m) = m"
| "str_of_error (TypeError m) = m"
| "str_of_error (ValueError m) = m"
| "str_of_error (RequestError m) = m"
| "str_of_error (ServiceError m) = m"

text \<open>
  A strike record as the provider returns it. The date is found under the key
  \<open>expiration\<close> or under its alias \<open>expirDate\<close>; which of the two keys (and which of
  the other keys) a record really carries is told by the column list of its frame, and
  the value of a field whose column is not listed is never read.
\<close>

record strike_rec =
  expiration :: date
  expirDate :: date
  strike :: rat
  callMidIv :: rat
  putMidIv :: rat
  delta :: rat
  gamma :: rat
  theta :: rat
  vega :: rat

record summary_rec =
  stockPrice :: rat
  summary_fields :: "(string \<times> string) list"

type_synonym core_rec = "(string \<times> string) list"

text \<open>
  The \<open>data\<close> array of a provider response: flat records that share one key list.
  A response body is \<open>None\<close> when it has no \<open>data\<close> key.
\<close>

record 'r payload =
  keys :: "string list"
  records :: "'r list"

text \<open>A pandas frame: its column labels and its rows, in order.\<close>

record 'r dataframe =
  columns :: "string list"
  rows :: "'r list"

text \<open>\<open>pd.DataFrame()\<close>: no columns, no rows.\<close>

definition DataFrame_empty :: "'r dataframe" where
  "DataFrame_empty = \<lparr>columns = [], rows = []\<rparr>"

text \<open>\<open>pd.DataFrame(records)\<close>: an empty list gives a frame without columns.\<close>

definition DataFrame :: "'r payload \<Rightarrow> 'r dataframe" where
  "DataFrame d =
     (if records d = [] then DataFrame_empty
      else \<lparr>columns = keys d, rows = records d\<rparr>)"

text \<open>\<open>resp.get("data", [])\<close>, and \<open>pd.DataFrame\<close> of it.\<close>

definition data_of :: "'r payload option \<Rightarrow> 'r payload" where
  "data_of body = (case body of None \<Rightarrow> \<lparr>keys = [], records = []\<rparr> | Some d \<Rightarrow> d)"

definition frame_of_body :: "'r payload option \<Rightarrow> 'r dataframe" where
  "frame_of_body body = DataFrame (data_of body)"

text \<open>\<open>df.empty\<close>: some axis has length zero.\<close>

definition df_empty :: "'r dataframe \<Rightarrow> bool" where
  "df_empty df = (rows df = [] \<or> columns df = [])"

section \<open>Near-term window filter (lines 60-64)\<close>

definition two_months :: "date \<Rightarrow> date" where
  "two_months today = today + 60"

definition in_window :: "date \<Rightarrow> strike_rec \<Rightarrow> bool" where
  "in_window today r = (expiration r \<ge> today \<and> expiration r \<le> two_months today)"

text \<open>\<open>df_strikes["expiration"]\<close> raises KeyError when the frame has no such column.\<close>

definition df_two_months :: "date \<Rightarrow> strike_rec dataframe \<Rightarrow> error + strike_rec dataframe" where
  "df_two_months today df_strikes =
     (if ''expiration'' \<in> set (columns df_strikes)
      then Inr (df_strikes\<lparr>rows := filter (in_window today) (rows df_strikes)\<rparr>)
      else Inl (KeyError ''expiration''))"

section \<open>Nearest-ATM selector (lines 66-83)\<close>

text \<open>
  \<open>Series.idxmin()\<close>: the label of the first occurrence of the minimum, found by one
  scan from the left; it raises ValueError on an empty series. Row labels are unique, so
  a row is named here by its position in the group.
\<close>

fun scan_min :: "nat \<Rightarrow> rat \<Rightarrow> nat \<Rightarrow> rat list \<Rightarrow> nat" where
  "scan_min best bv i [] = best"
| "scan_min best bv i (x # xs) =
     (if x < bv then scan_min i x (Suc i) xs else scan_min best bv (Suc i) xs)"

fun idxmin :: "rat list \<Rightarrow> error + nat" where
  "idxmin [] = Inl (ValueError ''attempt to get argmin of an empty sequence'')"
| "idxmin (x # xs) = Inr (scan_min 0 x 1 xs)"

text \<open>\<open>group.loc[idx]\<close>.\<close>

definition loc :: "'r list \<Rightarrow> nat \<Rightarrow> error + 'r" where
  "loc rs idx = (if idx < length rs then Inr (rs ! idx) else Inl (KeyError ''loc''))"

definition closest_atm :: "rat \<Rightarrow> strike_rec dataframe \<Rightarrow> error + strike_rec" where
  "closest_atm current_price grp =
     (if ''strike'' \<in> set (columns grp)
      then (case idxmin (map (\<lambda>r. \<bar>strike r - current_price\<bar>) (rows grp)) of
              Inl e \<Rightarrow> Inl e
            | Inr idx \<Rightarrow> loc (rows grp) idx)
      else Inl (KeyError ''strike''))"

text \<open>
  \<open>df.groupby("expiration", group_keys=False)\<close>: one group per distinct date, the groups
  in ascending order of the date, each keeping its rows in frame order.
\<close>

definition date_group :: "strike_rec dataframe \<Rightarrow> date \<Rightarrow> strike_rec dataframe" where
  "date_group df k = df\<lparr>rows := filter (\<lambda>r. expiration r = k) (rows df)\<rparr>"

definition groupby_expiration :: "strike_rec dataframe \<Rightarrow> error + strike_rec dataframe list" where
  "groupby_expiration df =
     (if ''expiration'' \<in> set (columns df)
      then Inr (map (date_group df) (sort (remdups (map expiration (rows df)))))
      else Inl (KeyError ''expiration''))"

text \<open>\<open>.apply(f)\<close> over the groups: the first exception raised by \<open>f\<close> ends it.\<close>

fun apply_groups :: "('g \<Rightarrow> error + 'r) \<Rightarrow> 'g list \<Rightarrow> error + 'r list" where
  "apply_groups f [] = Inr []"
| "apply_groups f (g # gs) =
     (case f g of
        Inl e \<Rightarrow> Inl e
      | Inr r \<Rightarrow> (case apply_groups f gs of Inl e \<Rightarrow> Inl e | Inr rs \<Rightarrow> Inr (r # rs)))"

text \<open>The groupby / apply / reset_index expression of lines 79-83.\<close>

definition select_per_date :: "rat \<Rightarrow> strike_rec dataframe \<Rightarrow> error + strike_rec dataframe" where
  "select_per_date current_price df =
     (case groupby_expiration df of
        Inl e \<Rightarrow> Inl e
      | Inr groups \<Rightarrow>
          (case apply_groups (closest_atm current_price) groups of
             Inl e \<Rightarrow> Inl e
           | Inr picked \<Rightarrow> Inr (df\<lparr>rows := picked\<rparr>)))"

text \<open>Lines 68-73: the 5 percent band, widened to the whole window when it is empty.\<close>

definition atm_threshold :: "rat \<Rightarrow> rat" where
  "atm_threshold current_price = 0.05 * current_price"

definition tight_set :: "rat \<Rightarrow> strike_rec dataframe \<Rightarrow> strike_rec dataframe" where
  "tight_set current_price df =
     df\<lparr>rows := filter (\<lambda>r. \<bar>strike r - current_price\<bar> \<le> atm_threshold current_price) (rows df)\<rparr>"

definition df_atm :: "rat \<Rightarrow> strike_rec dataframe \<Rightarrow> error + strike_rec dataframe" where
  "df_atm current_price window =
     (if ''strike'' \<in> set (columns window)
      then Inr (if df_empty (tight_set current_price window) then window
                else tight_set current_price window)
      else Inl (KeyError ''strike''))"

text \<open>Python truthiness of \<open>current_price\<close>: None and 0.0 are false.\<close>

fun truthy :: "rat option \<Rightarrow> bool" where
  "truthy None = False"
| "truthy (Some p) = (p \<noteq> 0)"

definition df_atm_grouped :: "strike_rec dataframe \<Rightarrow> rat option \<Rightarrow> error + strike_rec dataframe" where
  "df_atm_grouped window current_price =
     (if \<not> df_empty window \<and> truthy current_price
      then (case current_price of
              None \<Rightarrow> Inr DataFrame_empty
            | Some p \<Rightarrow>
                (case df_atm p window of
                   Inl e \<Rightarrow> Inl e
                 | Inr cands \<Rightarrow> select_per_date p cands))
      else Inr DataFrame_empty)"

section \<open>The run: effects as a trace, exceptions as values\<close>

text \<open>
  A run is the body of \<open>if ticker:\<close> (lines 24-159). What it does to the outside is the
  list of its events in order: each provider query, each page element written, the
  completion call. A computation yields its events and either a value or the exception
  that ended it; an exception that reaches the result of the run has escaped, since the
  script has no handler around the block.
\<close>

datatype endpoint = Summaries | Strikes | Cores

datatype event =
    RequestsGet endpoint
  | StError string
  | StWrite string
  | StSummaries "summary_rec dataframe"
  | StAtm "strike_rec dataframe"
  | StCores "core_rec dataframe"
  | ChatCompletionCreate string string

type_synonym 'a io = "event list \<times> (error + 'a)"

definition io_emit :: "event \<Rightarrow> unit io" where
  "io_emit ev = ([ev], Inr ())"

definition io_lift :: "error + 'a \<Rightarrow> 'a io" where
  "io_lift r = ([], r)"

definition io_bind :: "'a io \<Rightarrow> ('a \<Rightarrow> 'b io) \<Rightarrow> 'b io" where
  "io_bind m f =
     (case m of
        (t, Inl e) \<Rightarrow> (t, Inl e)
      | (t, Inr x) \<Rightarrow> (case f x of (t', r) \<Rightarrow> (t @ t', r)))"

text \<open>
  The library functions whose output format the script does not fix: the \<open>.2f\<close> format
  of a float and \<open>DataFrame.to_string(index=False)\<close>.
\<close>

record render =
  fmt2 :: "rat \<Rightarrow> string"
  summaries_to_string :: "summary_rec dataframe \<Rightarrow> string"
  strikes_to_string :: "strike_rec dataframe \<Rightarrow> string"
  cores_to_string :: "core_rec dataframe \<Rightarrow> string"

text \<open>
  The outside world of one run: what \<open>requests.get(url).json()\<close> gives for each of the
  three URLs (an exception, or the parsed body), the current date, and the completion
  service (an exception, or the text at \<open>response["choices"][0]["message"]["content"]\<close>)
  as a function of the system and user messages.
\<close>

record env =
  get_summaries :: "error + summary_rec payload option"
  get_strikes :: "error + strike_rec payload option"
  get_cores :: "error + core_rec payload option"
  date_today :: date
  chat_completion :: "string \<Rightarrow> string \<Rightarrow> error + string"

text \<open>Lines 28-30, 48-50, 99-100: the query is not inside any try block.\<close>

definition fetch :: "endpoint \<Rightarrow> error + 'r payload option \<Rightarrow> 'r dataframe io" where
  "fetch ep resp =
     (case resp of
        Inl e \<Rightarrow> ([RequestsGet ep], Inl e)
      | Inr body \<Rightarrow> ([RequestsGet ep], Inr (frame_of_body body)))"

text \<open>Lines 35-40.\<close>

definition read_current_price :: "render \<Rightarrow> string \<Rightarrow> summary_rec dataframe \<Rightarrow> rat option io" where
  "read_current_price R ticker df_summaries =
     (if ''stockPrice'' \<in> set (columns df_summaries)
      then (case rows df_summaries of
              [] \<Rightarrow> ([], Inl (KeyError ''0''))
            | r # _ \<Rightarrow>
                ([StWrite (''**Current '' @ ticker @ '' price (ORATS Summaries):** ''
                           @ fmt2 R (stockPrice r))],
                 Inr (Some (stockPrice r))))
      else ([StWrite ''No 'stockPrice' in summaries.''], Inr None))"

text \<open>
  Lines 52-58. After the message of the last branch the script goes on with the frame
  as it is.
\<close>

definition standardize :: "strike_rec dataframe \<Rightarrow> strike_rec dataframe io" where
  "standardize df_strikes =
     (if ''expiration'' \<in> set (columns df_strikes) then ([], Inr df_strikes)
      else if ''expirDate'' \<in> set (columns df_strikes)
      then ([], Inr \<lparr>columns = columns df_strikes @ [''expiration''],
                    rows = map (\<lambda>r. r\<lparr>expiration := expirDate r\<rparr>) (rows df_strikes)\<rparr>)
      else ([StError ''Strikes data missing 'expiration' or 'expirDate'.''], Inr df_strikes))"

text \<open>Lines 85-89: selecting a column list raises KeyError when one is missing.\<close>

definition atm_columns :: "string list" where
  "atm_columns = [''expiration'', ''strike'', ''callMidIv'', ''putMidIv'',
                  ''delta'', ''gamma'', ''theta'', ''vega'']"

definition show_atm :: "strike_rec dataframe \<Rightarrow> unit io" where
  "show_atm atm =
     io_bind (io_emit (StWrite ''--- **ATM Options (Next 2 Months)** ---'')) (\<lambda>_.
       if df_empty atm then io_emit (StWrite ''No ATM options found within two months.'')
       else if set atm_columns \<subseteq> set (columns atm)
       then io_emit (StAtm (atm\<lparr>columns := atm_columns\<rparr>))
       else io_lift (Inl (KeyError ''not in index'')))"

text \<open>Lines 94-106.\<close>

definition cores_section :: "env \<Rightarrow> core_rec dataframe io" where
  "cores_section env =
     io_bind (fetch Cores (get_cores env)) (\<lambda>df_cores.
     io_bind (io_emit (StWrite ''--- **ORATS Core Data** ---'')) (\<lambda>_.
     io_bind (if df_empty df_cores then io_emit (StWrite ''No core data returned.'')
              else io_emit (StCores df_cores)) (\<lambda>_.
     io_lift (Inr df_cores))))"

section \<open>Narrative prompt builder (lines 112-140)\<close>

definition summaries_text :: "render \<Rightarrow> summary_rec dataframe \<Rightarrow> string" where
  "summaries_text R df_summaries = summaries_to_string R df_summaries"

definition atm_text :: "render \<Rightarrow> strike_rec dataframe \<Rightarrow> string" where
  "atm_text R atm = (if \<not> df_empty atm then strikes_to_string R atm else ''No ATM data'')"

definition cores_text :: "render \<Rightarrow> core_rec dataframe \<Rightarrow> string" where
  "cores_text R df_cores = (if \<not> df_empty df_cores then cores_to_string R df_cores else ''No Core Data'')"

text \<open>
  The f-string of lines 116-135, with the three texts already rendered. The format
  \<open>{current_price:.2f}\<close> raises TypeError when \<open>current_price\<close> is None.
\<close>

definition prompt_template :: "render \<Rightarrow> string \<Rightarrow> string \<Rightarrow> string \<Rightarrow> string \<Rightarrow> rat \<Rightarrow> string" where
  "prompt_template R ticker s_text a_text c_text p =
      ''\<newline>''
      @ ''        You are an expert options trader. Below is specific ORATS data for ''
      @ ticker
      @ '':\<newline>''
      @ ''    \<newline>''
      @ ''        1) Summaries Data:\<newline>''
      @ ''        ''
      @ s_text
      @ ''\<newline>''
      @ ''    \<newline>''
      @ ''        2) ATM Options for the Next Two Months:\<newline>''
      @ ''        ''
      @ a_text
      @ ''\<newline>''
      @ ''    \<newline>''
      @ ''        3) Core Data:\<newline>''
      @ ''        ''
      @ c_text
      @ ''\<newline>''
      @ ''    \<newline>''
      @ ''        Based on these specific numbers, please provide a detailed interpretation. Instead of general educational remarks, analyze what these exact values indicate for ''
      @ ticker
      @ '''s diagonal spread strategy. For example, discuss:\<newline>''
      @ ''        - What does the current price of ''
      @ fmt2 R p
      @ '' and the fact that ATM options are at a strike of 245 imply?\<newline>''
      @ ''        - How do the specific implied volatility numbers (callMidIv and putMidIv) and Greeks (delta, gamma, theta, vega) influence the strategy?\<newline>''
      @ ''        - What do the core data values such as a contango of 0.2915, slope of 2.327968, and deriv of 0.0651 tell us about the term structure and skew?\<newline>''
      @ ''        - Provide actionable insights based on these exact output values, including potential trade adjustments or strategy recommendations.\<newline>''
      @ ''    \<newline>''
      @ ''        Please be as specific as possible in your analysis using the provided data.\<newline>''
      @ ''        ''"

definition prompt_user ::
  "render \<Rightarrow> string \<Rightarrow> summary_rec dataframe \<Rightarrow> strike_rec dataframe \<Rightarrow> core_rec dataframe
     \<Rightarrow> rat option \<Rightarrow> error + string" where
  "prompt_user R ticker df_summaries atm df_cores current_price =
     (case current_price of
        None \<Rightarrow> Inl (TypeError ''unsupported format string passed to NoneType.__format__'')
      | Some p \<Rightarrow>
          Inr (prompt_template R ticker (summaries_text R df_summaries) (atm_text R atm)
                 (cores_text R df_cores) p))"

section \<open>Interpretation client (lines 137-157) and the whole run\<close>

definition system_message :: string where
  "system_message = ''You are a financial analyst specializing in options strategies.''"

text \<open>
  The call and the reading of its answer are inside \<open>try\<close>; \<open>except Exception\<close> turns
  whatever they raise into one error message. The call is made once.
\<close>

definition ai_interpretation :: "env \<Rightarrow> string \<Rightarrow> unit io" where
  "ai_interpretation env prompt =
     ([StWrite ''--- **AI Interpretation** ---'', ChatCompletionCreate system_message prompt]
        @ (case chat_completion env system_message prompt of
             Inr ai_analysis \<Rightarrow> [StWrite ai_analysis]
           | Inl e \<Rightarrow> [StError (''Error with OpenAI API: '' @ str_of_error e)]),
      Inr ())"

text \<open>Lines 35-140: everything between the summaries check and the completion call.\<close>

definition prepare :: "render \<Rightarrow> env \<Rightarrow> string \<Rightarrow> summary_rec dataframe \<Rightarrow> string io" where
  "prepare R env ticker df_summaries =
     io_bind (read_current_price R ticker df_summaries) (\<lambda>current_price.
     io_bind (io_emit (StWrite ''--- **Summaries Data** ---'')) (\<lambda>_.
     io_bind (io_emit (StSummaries df_summaries)) (\<lambda>_.
     io_bind (fetch Strikes (get_strikes env)) (\<lambda>raw_strikes.
     io_bind (standardize raw_strikes) (\<lambda>df_strikes.
     io_bind (io_lift (df_two_months (date_today env) df_strikes)) (\<lambda>window.
     io_bind (io_lift (df_atm_grouped window current_price)) (\<lambda>atm.
     io_bind (show_atm atm) (\<lambda>_.
     io_bind (cores_section env) (\<lambda>df_cores.
     io_lift (prompt_user R ticker df_summaries atm df_cores current_price))))))))))"

text \<open>Lines 35-159: the else branch of the summaries check.\<close>

definition analysis :: "render \<Rightarrow> env \<Rightarrow> string \<Rightarrow> summary_rec dataframe \<Rightarrow> unit io" where
  "analysis R env ticker df_summaries =
     io_bind (prepare R env ticker df_summaries) (\<lambda>prompt.
     io_bind (ai_interpretation env prompt) (\<lambda>_.
     io_emit (StWrite
       ''Analysis complete. Check above for AI interpretation of the ORATS data.'')))"

text \<open>Lines 24-159.\<close>

definition app :: "render \<Rightarrow> env \<Rightarrow> string \<Rightarrow> unit io" where
  "app R env ticker =
     (if ticker = [] then ([], Inr ())
      else io_bind (fetch Summaries (get_summaries env)) (\<lambda>df_summaries.
             if df_empty df_summaries
             then io_emit (StError
               ''No summary data returned from ORATS. Check your ticker or API token.'')
             else analysis R env ticker df_summaries))"

text \<open>A trace in which the completion service is not called.\<close>

definition no_completion_call :: "event list \<Rightarrow> bool" where
  "no_completion_call t = (\<forall>ev \<in> set t. case ev of ChatCompletionCreate _ _ \<Rightarrow> False | _ \<Rightarrow> True)"

section \<open>Concrete inputs\<close>

definition ex_render :: render where
  "ex_render = \<lparr>fmt2 = (\<lambda>_. ''245.00''), summaries_to_string = (\<lambda>_. ''<summaries>''),
                 strikes_to_string = (\<lambda>_. ''<atm>''), cores_to_string = (\<lambda>_. ''<cores>'')\<rparr>"

definition ex_rec :: "date \<Rightarrow> rat \<Rightarrow> strike_rec" where
  "ex_rec e k = \<lparr>expiration = e, expirDate = e, strike = k, callMidIv = 0, putMidIv = 0,
                 delta = 0, gamma = 0, theta = 0, vega = 0\<rparr>"

text \<open>The example of the specification: price 245, strikes 240 and 250 on one date, 246 on another.\<close>

definition ex_window :: "strike_rec dataframe" where
  "ex_window = \<lparr>columns = atm_columns, rows = [ex_rec 10 240, ex_rec 10 250, ex_rec 20 246]\<rparr>"



definition ex_summaries :: "summary_rec payload" where
  "ex_summaries = \<lparr>keys = [''ticker'', ''stockPrice''],
                    records = [\<lparr>stockPrice = 245, summary_fields = [(''ticker'', ''AAPL'')]\<rparr>]\<rparr>"

text \<open>A quote summary whose records have no \<open>stockPrice\<close> key.\<close>

definition ex_summaries_no_price :: "summary_rec payload" where
  "ex_summaries_no_price = \<lparr>keys = [''ticker''],
                    records = [\<lparr>stockPrice = 0, summary_fields = [(''ticker'', ''AAPL'')]\<rparr>]\<rparr>"

text \<open>A quote summary whose price is 0.\<close>

definition ex_summaries_zero :: "summary_rec payload" where
  "ex_summaries_zero = \<lparr>keys = [''ticker'', ''stockPrice''],
                    records = [\<lparr>stockPrice = 0, summary_fields = [(''ticker'', ''AAPL'')]\<rparr>]\<rparr>"

definition ex_strikes_payload :: "strike_rec payload" where
  "ex_strikes_payload = \<lparr>keys = atm_columns, records = rows ex_window\<rparr>"

text \<open>Strike records that carry neither \<open>expiration\<close> nor \<open>expirDate\<close>.\<close>

definition ex_strikes_no_date :: "strike_rec payload" where
  "ex_strikes_no_date = \<lparr>keys = [''strike'', ''callMidIv'', ''putMidIv'', ''delta'', ''gamma'',
                                   ''theta'', ''vega''],
                          records = rows ex_window\<rparr>"

definition ex_cores :: "core_rec payload" where
  "ex_cores = \<lparr>keys = [''ticker'', ''contango''], records = [[(''ticker'', ''AAPL''), (''contango'', ''0.2915'')]]\<rparr>"

text \<open>A world where every call answers.\<close>

definition ex_env :: env where
  "ex_env = \<lparr>get_summaries = Inr (Some ex_summaries), get_strikes = Inr (Some ex_strikes_payload),
              get_cores = Inr (Some ex_cores), date_today = 0,
              chat_completion = (\<lambda>_ _. Inr ''<analysis>'')\<rparr>"

text \<open>Variations of that world, one call or one field changed.\<close>

definition ex_env_no_date :: env where
  "ex_env_no_date = ex_env\<lparr>get_strikes := Inr (Some ex_strikes_no_date)\<rparr>"

definition ex_env_no_strikes :: env where
  "ex_env_no_strikes = ex_env\<lparr>get_strikes := Inr (Some \<lparr>keys = [], records = []\<rparr>)\<rparr>"

definition ex_env_no_price :: env where
  "ex_env_no_price = ex_env\<lparr>get_summaries := Inr (Some ex_summaries_no_price)\<rparr>"


definition ex_env_no_summary :: env where
  "ex_env_no_summary = ex_env\<lparr>get_summaries := Inr (Some \<lparr>keys = [], records = []\<rparr>)\<rparr>"

definition ex_env_chat_down :: env where
  "ex_env_chat_down = ex_env\<lparr>chat_completion := (\<lambda>_ _. Inl (ServiceError ''rate limit''))\<rparr>"

text \<open>The prompt and the page of the run in \<open>ex_env\<close>, up to the completion call.\<close>

definition ex_prompt :: string where
  "ex_prompt = prompt_template ex_render ''AAPL'' ''<summaries>'' ''<atm>'' ''<cores>'' 245"

definition ex_page :: "event list" where
  "ex_page =
    [RequestsGet Summaries,
     StWrite ''**Current AAPL price (ORATS Summaries):** 245.00'',
     StWrite ''--- **Summaries Data** ---'',
     StSummaries (frame_of_body (Some ex_summaries)),
     RequestsGet Strikes,
     StWrite ''--- **ATM Options (Next 2 Months)** ---'',
     StAtm (ex_window\<lparr>rows := [ex_rec 10 240, ex_rec 20 246]\<rparr>),
     RequestsGet Cores,
     StWrite ''--- **ORATS Core Data** ---'',
     StCores (frame_of_body (Some ex_cores)),
     StWrite ''--- **AI Interpretation** ---'']"

section \<open>The nearest-ATM selection: first minimum of each date\<close>






lemma date_group_simps [simp]:
  "columns (date_group df k) = columns df"
  "rows (date_group df k) = filter (\<lambda>r. expiration r = k) (rows df)"
  by (simp_all add: date_group_def)





section \<open>Selector and window filter: the claims\<close>









text \<open>
  Claim C9. With the current price absent the ATM selection result is the empty frame,
  whatever the window holds; it is the empty frame too when the window is empty, whatever
  the price; and the price is absent when the quote summary has no \<open>stockPrice\<close> column.
\<close>

theorem no_price_no_selection:
  "df_atm_grouped window None = Inr DataFrame_empty \<and>
   (df_empty window \<longrightarrow> df_atm_grouped window current_price = Inr DataFrame_empty) \<and>
   (''stockPrice'' \<notin> set (columns df_summaries) \<longrightarrow>
      snd (read_current_price R ticker df_summaries) = Inr None)"
  by (simp add: df_atm_grouped_def read_current_price_def)

theorem no_price_no_selection_witness:
  "df_atm_grouped ex_window None = Inr DataFrame_empty \<and>
   df_empty (DataFrame_empty :: strike_rec dataframe) \<and>
   df_atm_grouped DataFrame_empty (Some 245) = Inr DataFrame_empty \<and>
   ''stockPrice'' \<notin> set (columns (frame_of_body (Some ex_summaries_no_price))) \<and>
   snd (read_current_price ex_render ''AAPL'' (frame_of_body (Some ex_summaries_no_price))) = Inr None"
proof -
  have h1: "df_empty (DataFrame_empty :: strike_rec dataframe)"
    by (simp add: df_empty_def DataFrame_empty_def)
  have h2: "''stockPrice'' \<notin> set (columns (frame_of_body (Some ex_summaries_no_price)))"
    by (simp add: frame_of_body_def data_of_def DataFrame_def ex_summaries_no_price_def)
  from no_price_no_selection[where window = ex_window and current_price = "Some 245"
         and df_summaries = "frame_of_body (Some ex_summaries_no_price)"
         and R = ex_render and ticker = "''AAPL''"]
       no_price_no_selection[where window = DataFrame_empty and current_price = "Some 245"
         and df_summaries = "frame_of_body (Some ex_summaries_no_price)"
         and R = ex_render and ticker = "''AAPL''"] h1 h2
  show ?thesis by blast
qed

text \<open>
  Claim C10. A current price that is present and equal to 0 (the first quote summary
  has \<open>stockPrice\<close> 0) fails the truthiness test of line 67: the selector returns the
  empty frame for every window, the same result as with the price absent.
\<close>

theorem zero_price_as_absent:
  "df_atm_grouped window (Some 0) = Inr DataFrame_empty \<and>
   df_atm_grouped window (Some 0) = df_atm_grouped window None \<and>
   (''stockPrice'' \<in> set (columns df_summaries) \<and> rows df_summaries = r # rs \<and> stockPrice r = 0
      \<longrightarrow> snd (read_current_price R ticker df_summaries) = Inr (Some 0))"
  by (simp add: df_atm_grouped_def read_current_price_def)

theorem zero_price_as_absent_witness:
  "\<not> df_empty ex_window \<and> df_atm_grouped ex_window (Some 0) = Inr DataFrame_empty \<and>
   df_atm_grouped ex_window (Some 0) = df_atm_grouped ex_window None \<and>
   ''stockPrice'' \<in> set (columns (frame_of_body (Some ex_summaries_zero))) \<and>
   rows (frame_of_body (Some ex_summaries_zero)) = records ex_summaries_zero \<and>
   snd (read_current_price ex_render ''AAPL'' (frame_of_body (Some ex_summaries_zero))) = Inr (Some 0)"
proof -
  have h: "\<not> df_empty ex_window" by (simp add: df_empty_def ex_window_def atm_columns_def)
  have h1: "''stockPrice'' \<in> set (columns (frame_of_body (Some ex_summaries_zero)))"
    by (simp add: frame_of_body_def data_of_def DataFrame_def ex_summaries_zero_def)
  have h2: "rows (frame_of_body (Some ex_summaries_zero)) = records ex_summaries_zero"
    by (simp add: frame_of_body_def data_of_def DataFrame_def ex_summaries_zero_def)
  have h3: "rows (frame_of_body (Some ex_summaries_zero))
              = \<lparr>stockPrice = 0, summary_fields = [(''ticker'', ''AAPL'')]\<rparr> # []"
    by (simp add: frame_of_body_def data_of_def DataFrame_def ex_summaries_zero_def)
  have h4: "stockPrice \<lparr>stockPrice = 0, summary_fields = [(''ticker'', ''AAPL'')]\<rparr> = 0" by simp
  from zero_price_as_absent[where window = ex_window
         and df_summaries = "frame_of_body (Some ex_summaries_zero)"
         and r = "\<lparr>stockPrice = 0, summary_fields = [(''ticker'', ''AAPL'')]\<rparr>" and rs = "[]"
         and R = ex_render and ticker = "''AAPL''"] h h1 h2 h3 h4
  show ?thesis by blast
qed

section \<open>The run: sequencing lemmas\<close>

lemma io_bind_Inl [simp]: "io_bind (t, Inl e) f = (t, Inl e)"
  by (simp add: io_bind_def)

lemma io_bind_Inr [simp]: "io_bind (t, Inr x) f = (t @ fst (f x), snd (f x))"
  by (simp add: io_bind_def split: prod.splits)

lemmas run_defs = app_def analysis_def prepare_def fetch_def frame_of_body_def data_of_def DataFrame_def
  DataFrame_empty_def df_empty_def io_emit_def io_lift_def read_current_price_def standardize_def
  df_two_months_def in_window_def two_months_def show_atm_def cores_section_def prompt_user_def
  ai_interpretation_def df_atm_grouped_def df_atm_def tight_set_def atm_threshold_def
  select_per_date_def groupby_expiration_def date_group_def closest_atm_def loc_def
  summaries_text_def atm_text_def cores_text_def

lemmas ex_defs = ex_env_def ex_render_def ex_summaries_def ex_summaries_no_price_def ex_strikes_payload_def
  ex_strikes_no_date_def ex_cores_def ex_window_def ex_rec_def atm_columns_def

lemma fst_io_bind:
  "fst (io_bind m f) = (case snd m of Inl e \<Rightarrow> fst m | Inr x \<Rightarrow> fst m @ fst (f x))"
  by (cases m) (auto simp: io_bind_def split: sum.splits prod.splits)


subsection \<open>No completion call before the prompt is built\<close>

lemma ncc_Nil [simp]: "no_completion_call []"
  by (simp add: no_completion_call_def)

lemma ncc_append [simp]: "no_completion_call (s @ t) = (no_completion_call s \<and> no_completion_call t)"
  by (auto simp: no_completion_call_def)

lemma ncc_Cons [simp]:
  "no_completion_call (ev # t) = ((case ev of ChatCompletionCreate _ _ \<Rightarrow> False | _ \<Rightarrow> True) \<and> no_completion_call t)"
  by (auto simp: no_completion_call_def)

lemma ncc_bind:
  "no_completion_call (fst m) \<Longrightarrow> (\<And>x. no_completion_call (fst (f x))) \<Longrightarrow>
     no_completion_call (fst (io_bind m f))"
  by (simp add: fst_io_bind split: sum.splits)

lemma ncc_emit: "(case ev of ChatCompletionCreate _ _ \<Rightarrow> False | _ \<Rightarrow> True) \<Longrightarrow> no_completion_call (fst (io_emit ev))"
  by (simp add: io_emit_def)

lemma ncc_lift [simp]: "no_completion_call (fst (io_lift r))"
  by (simp add: io_lift_def)

lemma ncc_fetch [simp]: "no_completion_call (fst (fetch ep resp))"
  by (simp add: fetch_def split: sum.splits)

lemma ncc_read_current_price [simp]: "no_completion_call (fst (read_current_price R ticker s))"
  by (simp add: read_current_price_def split: list.splits)

lemma ncc_standardize [simp]: "no_completion_call (fst (standardize df))"
  by (simp add: standardize_def)

lemma ncc_show_atm [simp]: "no_completion_call (fst (show_atm atm))"
  unfolding show_atm_def by (rule ncc_bind) (simp_all add: ncc_emit)

lemma ncc_cores_section [simp]: "no_completion_call (fst (cores_section env))"
  unfolding cores_section_def by (intro ncc_bind) (simp_all add: ncc_emit)

lemma ncc_prepare: "no_completion_call (fst (prepare R env ticker s))"
  unfolding prepare_def by (intro ncc_bind) (simp_all add: ncc_emit)

lemma prepare_chat_indep:
  "prepare R (env\<lparr>chat_completion := c\<rparr>) ticker s = prepare R env ticker s"
  by (simp add: prepare_def cores_section_def)

lemma ncc_not_mem: "no_completion_call t \<Longrightarrow> ChatCompletionCreate s p \<notin> set t"
  by (auto simp: no_completion_call_def)

lemma analysis_cases:
  "(\<exists>e. snd (prepare R env ticker s) = Inl e \<and> analysis R env ticker s = (fst (prepare R env ticker s), Inl e)) \<or>
   (\<exists>prompt. snd (prepare R env ticker s) = Inr prompt \<and>
      analysis R env ticker s =
        (fst (prepare R env ticker s) @ [StWrite ''--- **AI Interpretation** ---'', ChatCompletionCreate system_message prompt]
          @ (case chat_completion env system_message prompt of
               Inr ai_analysis \<Rightarrow> [StWrite ai_analysis]
             | Inl e \<Rightarrow> [StError (''Error with OpenAI API: '' @ str_of_error e)])
          @ [StWrite ''Analysis complete. Check above for AI interpretation of the ORATS data.''], Inr ()))"
proof (cases "prepare R env ticker s")
  case (Pair t r)
  then show ?thesis
    by (cases r) (simp_all add: analysis_def ai_interpretation_def io_emit_def)
qed

lemma app_cases:
  "(app R env ticker = ([], Inr ()) \<and> ticker = []) \<or>
   (\<exists>e. app R env ticker = ([RequestsGet Summaries], Inl e)) \<or>
   app R env ticker = ([RequestsGet Summaries,
        StError ''No summary data returned from ORATS. Check your ticker or API token.''], Inr ()) \<or>
   (\<exists>body. ticker \<noteq> [] \<and> get_summaries env = Inr body \<and> \<not> df_empty (frame_of_body body) \<and>
      app R env ticker = (RequestsGet Summaries # fst (analysis R env ticker (frame_of_body body)),
                          snd (analysis R env ticker (frame_of_body body))))"
proof (cases "ticker = []")
  case True
  then show ?thesis by (simp add: app_def)
next
  case False
  show ?thesis
  proof (cases "get_summaries env")
    case (Inl e)
    then show ?thesis using False by (simp add: app_def fetch_def)
  next
    case (Inr body)
    then show ?thesis using False by (simp add: app_def fetch_def io_emit_def)
  qed
qed






section \<open>The run: the claims\<close>

text \<open>
  Claim C4. When the quote-summary query returns zero records, the run consists of that
  one query and one error message and then ends normally: the strikes and cores queries
  and the completion call are not made, and nothing else is written to the page.
\<close>

theorem no_summary_halts:
  assumes "ticker \<noteq> []" and "get_summaries env = Inr body" and "records (data_of body) = []"
  shows "app R env ticker =
           ([RequestsGet Summaries,
             StError ''No summary data returned from ORATS. Check your ticker or API token.''],
            Inr ())"
  using assms
  by (simp add: app_def fetch_def frame_of_body_def DataFrame_def DataFrame_empty_def
      df_empty_def io_emit_def)

theorem no_summary_halts_witness:
  "''AAPL'' \<noteq> [] \<and> get_summaries ex_env_no_summary = Inr (Some \<lparr>keys = [], records = []\<rparr>) \<and>
   records (data_of (Some \<lparr>keys = [], records = []\<rparr> :: summary_rec payload option)) = [] \<and>
   app ex_render ex_env_no_summary ''AAPL'' =
           ([RequestsGet Summaries,
             StError ''No summary data returned from ORATS. Check your ticker or API token.''],
            Inr ())"
proof -
  have h1: "''AAPL'' \<noteq> []" by simp
  have h2: "get_summaries ex_env_no_summary = Inr (Some \<lparr>keys = [], records = []\<rparr>)"
    by (simp add: ex_env_no_summary_def ex_env_def)
  have h3: "records (data_of (Some \<lparr>keys = [], records = []\<rparr> :: summary_rec payload option)) = []"
    by (simp add: data_of_def)
  from no_summary_halts[OF h1 h2 h3, of ex_render] h1 h2 h3 show ?thesis by blast
qed

text \<open>
  Claim C5 fails on the code. With strike records that carry neither \<open>expiration\<close> nor
  \<open>expirDate\<close> the error message of line 58 is written, and then line 63 reads the
  column that is not there: the run ends with KeyError, and neither the window filter
  nor the selector receives an empty set. An empty strikes list, whose frame has no
  columns at all, takes the same path.
\<close>

theorem missing_expiration_raises:
  "app ex_render ex_env_no_date ''AAPL'' =
   ([RequestsGet Summaries,
     StWrite ''**Current AAPL price (ORATS Summaries):** 245.00'',
     StWrite ''--- **Summaries Data** ---'',
     StSummaries (frame_of_body (Some ex_summaries)),
     RequestsGet Strikes,
     StError ''Strikes data missing 'expiration' or 'expirDate'.''],
    Inl (KeyError ''expiration'')) \<and>
   app ex_render ex_env_no_strikes ''AAPL'' = app ex_render ex_env_no_date ''AAPL''"
  by (simp add: run_defs ex_defs ex_env_no_date_def ex_env_no_strikes_def)




text \<open>
  Claim C7. When the run reaches the completion call and the call raises, the run still
  ends normally; the call is made once; what follows it is one error message and the
  closing line; and everything written before the call is what the same run writes when
  the call succeeds.
\<close>

theorem completion_error_caught:
  assumes reached: "ChatCompletionCreate s prompt \<in> set (fst (app R env ticker))"
    and fails: "chat_completion env s prompt = Inl e"
  shows "snd (app R env ticker) = Inr () \<and>
         (\<exists>pre. no_completion_call pre \<and>
            fst (app R env ticker) =
              pre @ [ChatCompletionCreate s prompt,
                     StError (''Error with OpenAI API: '' @ str_of_error e),
                     StWrite ''Analysis complete. Check above for AI interpretation of the ORATS data.''] \<and>
            (\<forall>answer. app R (env\<lparr>chat_completion := \<lambda>_ _. Inr answer\<rparr>) ticker =
               (pre @ [ChatCompletionCreate s prompt, StWrite answer,
                       StWrite ''Analysis complete. Check above for AI interpretation of the ORATS data.''],
                Inr ())))"
proof -
  from app_cases[of R env ticker] reached
  obtain body where b: "ticker \<noteq> []" "get_summaries env = Inr body" "\<not> df_empty (frame_of_body body)"
     "app R env ticker = (RequestsGet Summaries # fst (analysis R env ticker (frame_of_body body)),
                          snd (analysis R env ticker (frame_of_body body)))"
    by auto
  let ?S = "frame_of_body body"
  let ?P = "prepare R env ticker ?S"
  have q: "no_completion_call (fst ?P)" by (rule ncc_prepare)
  from analysis_cases[of R env ticker ?S] reached b(4) ncc_not_mem[OF q]
  obtain prompt' where p: "snd ?P = Inr prompt'"
    "analysis R env ticker ?S =
        (fst ?P @ [StWrite ''--- **AI Interpretation** ---'', ChatCompletionCreate system_message prompt']
          @ (case chat_completion env system_message prompt' of
               Inr ai_analysis \<Rightarrow> [StWrite ai_analysis]
             | Inl e \<Rightarrow> [StError (''Error with OpenAI API: '' @ str_of_error e)])
          @ [StWrite ''Analysis complete. Check above for AI interpretation of the ORATS data.''], Inr ())"
    by auto
  have mem: "ChatCompletionCreate s prompt \<in> set (fst (analysis R env ticker ?S))"
    using reached b(4) by simp
  have eq: "s = system_message \<and> prompt = prompt'"
    using mem p(2) ncc_not_mem[OF q, of s prompt] by (auto split: sum.splits)
  let ?pre = "RequestsGet Summaries # fst ?P @ [StWrite ''--- **AI Interpretation** ---'']"
  have 1: "snd (app R env ticker) = Inr ()" using b(4) p(2) by simp
  have 2: "no_completion_call ?pre" using q by simp
  have 3: "fst (app R env ticker) =
              ?pre @ [ChatCompletionCreate s prompt,
                     StError (''Error with OpenAI API: '' @ str_of_error e),
                     StWrite ''Analysis complete. Check above for AI interpretation of the ORATS data.'']"
    using b(4) p(2) eq fails by simp
  have 4: "app R (env\<lparr>chat_completion := \<lambda>_ _. Inr answer\<rparr>) ticker =
               (?pre @ [ChatCompletionCreate s prompt, StWrite answer,
                       StWrite ''Analysis complete. Check above for AI interpretation of the ORATS data.''],
                Inr ())" for answer
  proof -
    let ?env' = "env\<lparr>chat_completion := \<lambda>_ _. Inr answer\<rparr>"
    have pe: "prepare R ?env' ticker ?S = ?P" by (rule prepare_chat_indep)
    have "analysis R ?env' ticker ?S =
            (fst ?P @ [StWrite ''--- **AI Interpretation** ---'', ChatCompletionCreate system_message prompt',
               StWrite answer,
               StWrite ''Analysis complete. Check above for AI interpretation of the ORATS data.''], Inr ())"
      using analysis_cases[of R ?env' ticker ?S] p(1) by (simp add: pe)
    then show ?thesis using b(1,2,3) eq by (simp add: app_def fetch_def)
  qed
  from 1 2 3 4 show ?thesis by blast
qed

theorem completion_error_caught_witness:
  "ChatCompletionCreate system_message ex_prompt \<in> set (fst (app ex_render ex_env_chat_down ''AAPL'')) \<and>
   chat_completion ex_env_chat_down system_message ex_prompt = Inl (ServiceError ''rate limit'') \<and>
   app ex_render ex_env_chat_down ''AAPL'' =
     (ex_page @ [ChatCompletionCreate system_message ex_prompt,
                 StError ''Error with OpenAI API: rate limit'',
                 StWrite ''Analysis complete. Check above for AI interpretation of the ORATS data.''],
      Inr ()) \<and>
   snd (app ex_render ex_env_chat_down ''AAPL'') = Inr () \<and>
   (\<exists>pre. no_completion_call pre \<and>
      fst (app ex_render ex_env_chat_down ''AAPL'') =
        pre @ [ChatCompletionCreate system_message ex_prompt,
               StError (''Error with OpenAI API: '' @ str_of_error (ServiceError ''rate limit'')),
               StWrite ''Analysis complete. Check above for AI interpretation of the ORATS data.''] \<and>
      (\<forall>answer. app ex_render (ex_env_chat_down\<lparr>chat_completion := \<lambda>_ _. Inr answer\<rparr>) ''AAPL'' =
         (pre @ [ChatCompletionCreate system_message ex_prompt, StWrite answer,
                 StWrite ''Analysis complete. Check above for AI interpretation of the ORATS data.''],
          Inr ())))"
proof -
  have v: "app ex_render ex_env_chat_down ''AAPL'' =
     (ex_page @ [ChatCompletionCreate system_message ex_prompt,
                 StError ''Error with OpenAI API: rate limit'',
                 StWrite ''Analysis complete. Check above for AI interpretation of the ORATS data.''],
      Inr ())"
    by (simp add: run_defs ex_defs ex_page_def ex_prompt_def ex_env_chat_down_def)
  have h1: "ChatCompletionCreate system_message ex_prompt
              \<in> set (fst (app ex_render ex_env_chat_down ''AAPL''))"
    by (simp add: v)
  have h2: "chat_completion ex_env_chat_down system_message ex_prompt = Inl (ServiceError ''rate limit'')"
    by (simp add: ex_env_chat_down_def ex_env_def)
  from completion_error_caught[OF h1 h2] h1 h2 v show ?thesis by blast
qed

text \<open>
  Claim C8 fails on the code when the current price is absent: the format
  \<open>{current_price:.2f}\<close> of line 129 raises TypeError on None, so no prompt is
  produced, and the run ends there, after the tables and before the completion call.
\<close>

theorem prompt_without_price_raises:
  "prompt_user ex_render ''AAPL'' (frame_of_body (Some ex_summaries_no_price)) DataFrame_empty
      (frame_of_body (Some ex_cores)) None
     = Inl (TypeError ''unsupported format string passed to NoneType.__format__'') \<and>
   app ex_render ex_env_no_price ''AAPL'' =
   ([RequestsGet Summaries,
     StWrite ''No 'stockPrice' in summaries.'',
     StWrite ''--- **Summaries Data** ---'',
     StSummaries (frame_of_body (Some ex_summaries_no_price)),
     RequestsGet Strikes,
     StWrite ''--- **ATM Options (Next 2 Months)** ---'',
     StWrite ''No ATM options found within two months.'',
     RequestsGet Cores,
     StWrite ''--- **ORATS Core Data** ---'',
     StCores (frame_of_body (Some ex_cores))],
    Inl (TypeError ''unsupported format string passed to NoneType.__format__''))"
  by (simp add: run_defs ex_defs ex_env_no_price_def)

text \<open>
  With the price present the builder does return one text, with the placeholder in
  place of an empty ATM table and of an empty core table.
\<close>

lemma prompt_with_price:
  "prompt_user R ticker df_summaries atm df_cores (Some p) =
     Inr (prompt_template R ticker (summaries_to_string R df_summaries)
            (if df_empty atm then ''No ATM data'' else strikes_to_string R atm)
            (if df_empty df_cores then ''No Core Data'' else cores_to_string R df_cores) p)"
  by (simp add: prompt_user_def summaries_text_def atm_text_def cores_text_def)

end
